theory Spec2Isabelle
  imports Main
begin

section \<open>Data model (app/models.py)\<close>

text \<open>
  The status enumerations. Both Python enums have a member \<open>CANCELLED\<close>; the members of
  \<open>PaymentStatus\<close> carry the prefix \<open>P_\<close> here to keep the two apart.
\<close>

datatype PaymentStatus = P_PENDING | P_COMPLETED | P_FAILED | P_CANCELLED

datatype OrderStatus =
  CREATED | PAYMENT_PENDING | PAID | PROCESSING | SHIPPED | DELIVERED | CANCELLED

text \<open>
  \<open>Decimal\<close> prices have two decimal places and are only ever copied and compared by the
  services; they are held as a count of hundredths.
\<close>

type_synonym Decimal = int

text \<open>
  A \<open>datetime\<close> value. Only its calendar date is ever inspected (by \<open>strftime\<close> in
  \<open>create_order\<close>); the time of day is kept as one number.
\<close>

record datetime =
  year :: nat
  month :: nat
  day :: nat
  time_of_day :: nat

text \<open>
  One record per table class. A field \<open>f\<close> of class \<open>K\<close> is the selector \<open>K_f\<close>.
  The primary key is \<open>Optional[int]\<close> in the source: \<open>None\<close> on an object that has not
  been stored. A table class is not validated when an object of it is built, so the
  shipping fields of an \<open>Order\<close>, declared \<open>str\<close> and filled from a dict by
  \<open>create_order\<close>, can hold \<open>None\<close> on the object; their columns are NOT NULL, and
  the commit rejects such an object (see \<open>add_order\<close>).
\<close>

record Product =
  Product_id :: "int option"
  Product_name :: string
  Product_description :: string
  Product_price :: Decimal
  Product_is_active :: bool
  Product_stock_quantity :: int
  Product_sku :: "string option"
  Product_category :: "string option"
  Product_image_url :: "string option"
  Product_created_at :: datetime
  Product_updated_at :: datetime

record Customer =
  Customer_id :: "int option"
  Customer_email :: string
  Customer_first_name :: string
  Customer_last_name :: string
  Customer_phone :: "string option"
  Customer_created_at :: datetime
  Customer_updated_at :: datetime

record Order =
  Order_id :: "int option"
  Order_order_number :: string
  Order_customer_id :: int
  Order_status :: OrderStatus
  Order_total_amount :: Decimal
  Order_currency :: string
  Order_shipping_first_name :: "string option"
  Order_shipping_last_name :: "string option"
  Order_shipping_address_line1 :: "string option"
  Order_shipping_address_line2 :: "string option"
  Order_shipping_city :: "string option"
  Order_shipping_state :: "string option"
  Order_shipping_postal_code :: "string option"
  Order_shipping_country :: "string option"
  Order_created_at :: datetime
  Order_updated_at :: datetime

record OrderItem =
  OrderItem_id :: "int option"
  OrderItem_order_id :: int
  OrderItem_product_id :: int
  OrderItem_quantity :: int
  OrderItem_unit_price :: Decimal
  OrderItem_total_price :: Decimal

record Payment =
  Payment_id :: "int option"
  Payment_order_id :: int
  Payment_payment_method :: string
  Payment_status :: PaymentStatus
  Payment_amount :: Decimal
  Payment_currency :: string
  Payment_paypal_payment_id :: "string option"
  Payment_paypal_payer_id :: "string option"
  Payment_paypal_payment_token :: "string option"
  Payment_transaction_id :: "string option"
  Payment_payment_data :: "(string \<times> string) list option"
  Payment_created_at :: datetime
  Payment_updated_at :: datetime
  Payment_completed_at :: "datetime option"

text \<open>The request and response schemas of the checkout operation.\<close>

record PayPalPaymentRequest =
  Request_product_id :: int
  Request_customer_email :: string
  Request_customer_first_name :: string
  Request_customer_last_name :: string
  Request_shipping_address_line1 :: string
  Request_shipping_address_line2 :: "string option"
  Request_shipping_city :: string
  Request_shipping_state :: string
  Request_shipping_postal_code :: string
  Request_shipping_country :: string
  Request_phone :: "string option"

record PayPalPaymentResponse =
  Response_payment_id :: string
  Response_payment_url :: string
  Response_order_id :: int
  Response_status :: PaymentStatus

text \<open>
  The field constraints of \<open>PayPalPaymentRequest\<close> (\<open>max_length\<close>), which the schema
  class checks when a request object is built.
\<close>

definition max_length_opt :: "nat \<Rightarrow> string option \<Rightarrow> bool" where
  "max_length_opt n v = (case v of None \<Rightarrow> True | Some x \<Rightarrow> length x \<le> n)"

definition PayPalPaymentRequest_valid :: "PayPalPaymentRequest \<Rightarrow> bool" where
  "PayPalPaymentRequest_valid r =
     (length (Request_customer_email r) \<le> 255
      \<and> length (Request_customer_first_name r) \<le> 100
      \<and> length (Request_customer_last_name r) \<le> 100
      \<and> length (Request_shipping_address_line1 r) \<le> 255
      \<and> max_length_opt 255 (Request_shipping_address_line2 r)
      \<and> length (Request_shipping_city r) \<le> 100
      \<and> length (Request_shipping_state r) \<le> 100
      \<and> length (Request_shipping_postal_code r) \<le> 20
      \<and> length (Request_shipping_country r) \<le> 100
      \<and> max_length_opt 20 (Request_phone r))"

text \<open>
  The field constraints of \<open>CustomerCreate\<close>, checked when \<open>get_or_create_customer\<close>
  builds one; the table classes themselves are not validated when constructed.
\<close>

definition CustomerCreate_valid :: "string \<Rightarrow> string \<Rightarrow> string \<Rightarrow> string option \<Rightarrow> bool" where
  "CustomerCreate_valid email first_name last_name phone =
     (length email \<le> 255 \<and> length first_name \<le> 100 \<and> length last_name \<le> 100
      \<and> max_length_opt 20 phone)"

section \<open>The persistent store\<close>

text \<open>
  Modelled from the spec: the session layer \<open>app.database\<close> (\<open>get_session\<close>), which the
  services import and which is not among the source files. The spec describes the
  persistent store as the single source of truth with no caching layer, every commit its
  own commit point and no transaction spanning several writes. The store is therefore one
  list of rows per table; a commit of a new object appends a row with a fresh primary
  key, and a commit of a loaded object rewrites the row with that key. A commit checks
  what app/models.py declares for the table: the \<open>max_length\<close> of the text columns,
  the NOT NULL columns, the \<open>unique=True\<close> columns and the \<open>foreign_key\<close> references;
  a value that is too long raises \<open>DataError\<close>, the other violations raise
  \<open>IntegrityError\<close>, and nothing of that commit is written.
\<close>

record store =
  products :: "Product list"
  customers :: "Customer list"
  orders :: "Order list"
  order_items :: "OrderItem list"
  payments :: "Payment list"

datatype error =
  ValueError string
  | KeyError string
  | ValidationError string
  | DataError string
  | IntegrityError string
  | DetachedInstanceError string

text \<open>
  Modelled from the spec: what a caller holds of an object once the \<open>with\<close> block of the
  session that produced it is left. The sessions are the library's default ones: a commit
  expires every object of the session and \<open>refresh\<close> loads one again. An object
  that was loaded when the session closed keeps its field values (\<open>Loaded\<close>); one whose
  last commit came after its last refresh is \<open>Expired\<close>, and reading a field of it
  raises \<open>DetachedInstanceError\<close>.
\<close>

datatype 'a object = Loaded 'a | Expired

definition read_fields :: "'a object \<Rightarrow> error + 'a" where
  "read_fields obj =
     (case obj of
        Loaded v \<Rightarrow> Inr v
      | Expired \<Rightarrow> Inl (DetachedInstanceError ''Instance is not bound to a Session''))"

text \<open>
  Modelled from the spec: \<open>.first()\<close> on the result of a \<open>select\<close> without
  \<open>ORDER BY\<close>. Which of several matching rows comes first is up to the database and can
  differ from one query to the next; \<open>n\<close> stands for that choice.
\<close>

definition first :: "nat \<Rightarrow> 'a list \<Rightarrow> 'a option" where
  "first n rows = (if rows = [] then None else Some (rows ! (n mod length rows)))"

text \<open>
  Modelled from the spec: the primary key that the database gives to a new row (ids are
  assigned on creation); here one more than the largest key of the table.
\<close>

definition next_id :: "int option list \<Rightarrow> int" where
  "next_id ks = fold (\<lambda>k m. case k of None \<Rightarrow> m | Some i \<Rightarrow> max i m) ks 0 + 1"

text \<open>
  Modelled from the spec: the lengths of the text columns, from the \<open>max_length\<close> of
  each field in app/models.py. A value of \<open>None\<close> has no length to check.
\<close>

definition Customer_fits :: "Customer \<Rightarrow> bool" where
  "Customer_fits c =
     (length (Customer_email c) \<le> 255 \<and> length (Customer_first_name c) \<le> 100
      \<and> length (Customer_last_name c) \<le> 100 \<and> max_length_opt 20 (Customer_phone c))"

definition Order_fits :: "Order \<Rightarrow> bool" where
  "Order_fits ord =
     (length (Order_order_number ord) \<le> 50 \<and> length (Order_currency ord) \<le> 3
      \<and> max_length_opt 100 (Order_shipping_first_name ord)
      \<and> max_length_opt 100 (Order_shipping_last_name ord)
      \<and> max_length_opt 255 (Order_shipping_address_line1 ord)
      \<and> max_length_opt 255 (Order_shipping_address_line2 ord)
      \<and> max_length_opt 100 (Order_shipping_city ord)
      \<and> max_length_opt 100 (Order_shipping_state ord)
      \<and> max_length_opt 20 (Order_shipping_postal_code ord)
      \<and> max_length_opt 100 (Order_shipping_country ord))"

definition Payment_fits :: "Payment \<Rightarrow> bool" where
  "Payment_fits p =
     (length (Payment_payment_method p) \<le> 50 \<and> length (Payment_currency p) \<le> 3
      \<and> max_length_opt 100 (Payment_paypal_payment_id p)
      \<and> max_length_opt 100 (Payment_paypal_payer_id p)
      \<and> max_length_opt 100 (Payment_paypal_payment_token p)
      \<and> max_length_opt 100 (Payment_transaction_id p))"

text \<open>
  Modelled from the spec: \<open>session.add\<close> and \<open>commit\<close> of a new object on a session of
  \<open>app.database\<close>, per table, with the checks that app/models.py declares: the lengths
  above, unique \<open>customers.email\<close>, \<open>orders.order_number\<close> and
  \<open>payments.transaction_id\<close>, the NOT NULL shipping columns of \<open>orders\<close>, and the
  foreign keys \<open>orders.customer_id\<close>, \<open>order_items.order_id\<close>,
  \<open>order_items.product_id\<close> and \<open>payments.order_id\<close>. The object handed back carries
  the new primary key, as after \<open>refresh\<close>.
\<close>

definition add_customer :: "Customer \<Rightarrow> store \<Rightarrow> error + (Customer \<times> store)" where
  "add_customer c s =
     (if \<not> Customer_fits c then Inl (DataError ''customers'')
      else if Customer_email c \<in> set (map Customer_email (customers s))
      then Inl (IntegrityError ''customers.email'')
      else let c' = c\<lparr>Customer_id := Some (next_id (map Customer_id (customers s)))\<rparr>
           in Inr (c', s\<lparr>customers := customers s @ [c']\<rparr>))"

definition add_order :: "Order \<Rightarrow> store \<Rightarrow> error + (Order \<times> store)" where
  "add_order ord s =
     (if \<not> Order_fits ord then Inl (DataError ''orders'')
      else if None \<in> set [Order_shipping_first_name ord, Order_shipping_last_name ord,
                      Order_shipping_address_line1 ord, Order_shipping_city ord,
                      Order_shipping_state ord, Order_shipping_postal_code ord,
                      Order_shipping_country ord]
      then Inl (IntegrityError ''orders: NOT NULL'')
      else if Order_order_number ord \<in> set (map Order_order_number (orders s))
      then Inl (IntegrityError ''orders.order_number'')
      else if Some (Order_customer_id ord) \<notin> set (map Customer_id (customers s))
      then Inl (IntegrityError ''orders.customer_id'')
      else let ord' = ord\<lparr>Order_id := Some (next_id (map Order_id (orders s)))\<rparr>
           in Inr (ord', s\<lparr>orders := orders s @ [ord']\<rparr>))"

definition add_order_item :: "OrderItem \<Rightarrow> store \<Rightarrow> error + (OrderItem \<times> store)" where
  "add_order_item it s =
     (if Some (OrderItem_order_id it) \<notin> set (map Order_id (orders s))
      then Inl (IntegrityError ''order_items.order_id'')
      else if Some (OrderItem_product_id it) \<notin> set (map Product_id (products s))
      then Inl (IntegrityError ''order_items.product_id'')
      else let it' = it\<lparr>OrderItem_id := Some (next_id (map OrderItem_id (order_items s)))\<rparr>
           in Inr (it', s\<lparr>order_items := order_items s @ [it']\<rparr>))"

text \<open>
  \<open>transaction_id\<close> is unique among the rows where it is set; rows without one never
  collide.
\<close>

definition transaction_id_taken :: "int option \<Rightarrow> string option \<Rightarrow> Payment list \<Rightarrow> bool" where
  "transaction_id_taken k t ps =
     (case t of
        None \<Rightarrow> False
      | Some x \<Rightarrow> Some x \<in> set (map Payment_transaction_id (filter (\<lambda>q. Payment_id q \<noteq> k) ps)))"

definition add_payment :: "Payment \<Rightarrow> store \<Rightarrow> error + (Payment \<times> store)" where
  "add_payment p s =
     (if \<not> Payment_fits p then Inl (DataError ''payments'')
      else if transaction_id_taken None (Payment_transaction_id p) (payments s)
      then Inl (IntegrityError ''payments.transaction_id'')
      else if Some (Payment_order_id p) \<notin> set (map Order_id (orders s))
      then Inl (IntegrityError ''payments.order_id'')
      else let p' = p\<lparr>Payment_id := Some (next_id (map Payment_id (payments s)))\<rparr>
           in Inr (p', s\<lparr>payments := payments s @ [p']\<rparr>))"

text \<open>
  Modelled from the spec: the commit of a loaded object on a session of \<open>app.database\<close>,
  which rewrites the row that has its primary key.
\<close>

definition replace_order :: "Order \<Rightarrow> Order list \<Rightarrow> Order list" where
  "replace_order ord os = map (\<lambda>x. if Order_id x = Order_id ord then ord else x) os"

definition replace_payment :: "Payment \<Rightarrow> Payment list \<Rightarrow> Payment list" where
  "replace_payment p ps = map (\<lambda>x. if Payment_id x = Payment_id p then p else x) ps"

section \<open>Clock and random identifiers\<close>

text \<open>
  What a service function reads from outside the store: \<open>utcnow e n\<close> is the value of its
  \<open>n\<close>-th call of \<open>datetime.utcnow()\<close> (counted from 0), \<open>uuid4 e\<close> the text of
  \<open>str(uuid.uuid4())\<close>, and \<open>row_order e\<close> the choice the database makes for its
  unordered query; no function draws more than one identifier or runs more than one such
  query itself. A function that calls another service function takes one further \<open>env\<close>
  for each such call.
\<close>

record env =
  utcnow :: "nat \<Rightarrow> datetime"
  uuid4 :: string
  row_order :: nat

definition digit :: "nat \<Rightarrow> char" where
  "digit n = ''0123456789'' ! (n mod 10)"

text \<open>\<open>strftime('%Y%m%d')\<close>, for a four-digit year.\<close>

definition strftime_Ymd :: "datetime \<Rightarrow> string" where
  "strftime_Ymd d =
     [digit (year d div 1000), digit (year d div 100), digit (year d div 10), digit (year d),
      digit (month d div 10), digit (month d),
      digit (day d div 10), digit (day d)]"

text \<open>\<open>str.upper\<close> on the ASCII letters; the identifiers it is applied to are hexadecimal.\<close>

definition upper_char :: "char \<Rightarrow> char" where
  "upper_char c =
     (case map_of (zip ''abcdefghijklmnopqrstuvwxyz'' ''ABCDEFGHIJKLMNOPQRSTUVWXYZ'') c of
        None \<Rightarrow> c
      | Some u \<Rightarrow> u)"

definition upper :: "string \<Rightarrow> string" where
  "upper s = map upper_char s"

text \<open>\<open>s.replace('-', '')\<close>\<close>

definition remove_dashes :: "string \<Rightarrow> string" where
  "remove_dashes s = filter (\<lambda>c. c \<noteq> CHR ''-'') s"

section \<open>Services (app/services.py)\<close>

subsection \<open>ProductService\<close>

definition get_product_by_id :: "store \<Rightarrow> int \<Rightarrow> Product option" where
  "get_product_by_id s product_id = find (\<lambda>p. Product_id p = Some product_id) (products s)"

subsection \<open>CustomerService\<close>

text \<open>
  \<open>email\<close> is a unique column, so at most one row matches the query and \<open>.first()\<close>
  yields it whatever the row order. The new customer is refreshed after its commit.
\<close>

definition get_or_create_customer ::
  "env \<Rightarrow> string \<Rightarrow> string \<Rightarrow> string \<Rightarrow> string option \<Rightarrow> store \<Rightarrow> (error + Customer) \<times> store"
where
  "get_or_create_customer e email first_name last_name phone s =
     (case find (\<lambda>c. Customer_email c = email) (customers s) of
        Some existing_customer \<Rightarrow> (Inr existing_customer, s)
      | None \<Rightarrow>
          if \<not> CustomerCreate_valid email first_name last_name phone
          then (Inl (ValidationError ''CustomerCreate''), s)
          else
            (case add_customer
                    \<lparr>Customer_id = None, Customer_email = email,
                     Customer_first_name = first_name, Customer_last_name = last_name,
                     Customer_phone = phone,
                     Customer_created_at = utcnow e 0, Customer_updated_at = utcnow e 1\<rparr> s of
               Inl err \<Rightarrow> (Inl err, s)
             | Inr (customer, s1) \<Rightarrow> (Inr customer, s1)))"

subsection \<open>OrderService\<close>

text \<open>
  \<open>shipping_data\<close> is a dict from field names to values that are text or \<open>None\<close>:
  \<open>d k = None\<close> when the key is absent, \<open>d k = Some None\<close> when it is there with the
  value \<open>None\<close>. \<open>getitem\<close> is \<open>d[k]\<close> and \<open>dict_get\<close> is \<open>d.get(k)\<close>.
\<close>

type_synonym dict = "string \<rightharpoonup> string option"

definition getitem :: "dict \<Rightarrow> string \<Rightarrow> error + string option" where
  "getitem d k = (case d k of None \<Rightarrow> Inl (KeyError k) | Some v \<Rightarrow> Inr v)"

definition dict_get :: "dict \<Rightarrow> string \<Rightarrow> string option" where
  "dict_get d k = (case d k of None \<Rightarrow> None | Some v \<Rightarrow> v)"

definition order_number_of :: "env \<Rightarrow> string" where
  "order_number_of e = ''ORD-'' @ strftime_Ymd (utcnow e 0) @ ''-'' @ upper (take 8 (uuid4 e))"

text \<open>
  The constructor call \<open>Order(...)\<close>: its arguments are evaluated in the order written,
  and the values are stored on the object as they are.
\<close>

definition new_order :: "env \<Rightarrow> string \<Rightarrow> int \<Rightarrow> Product \<Rightarrow> dict \<Rightarrow> error + Order" where
  "new_order e order_number cid product shipping_data =
     (case getitem shipping_data ''shipping_first_name'' of
        Inl err \<Rightarrow> Inl err
      | Inr first_name \<Rightarrow>
     (case getitem shipping_data ''shipping_last_name'' of
        Inl err \<Rightarrow> Inl err
      | Inr last_name \<Rightarrow>
     (case getitem shipping_data ''shipping_address_line1'' of
        Inl err \<Rightarrow> Inl err
      | Inr line1 \<Rightarrow>
     (case getitem shipping_data ''shipping_city'' of
        Inl err \<Rightarrow> Inl err
      | Inr city \<Rightarrow>
     (case getitem shipping_data ''shipping_state'' of
        Inl err \<Rightarrow> Inl err
      | Inr state \<Rightarrow>
     (case getitem shipping_data ''shipping_postal_code'' of
        Inl err \<Rightarrow> Inl err
      | Inr postal_code \<Rightarrow>
     (case getitem shipping_data ''shipping_country'' of
        Inl err \<Rightarrow> Inl err
      | Inr country \<Rightarrow>
        Inr \<lparr>Order_id = None, Order_order_number = order_number, Order_customer_id = cid,
             Order_status = CREATED, Order_total_amount = Product_price product,
             Order_currency = ''USD'',
             Order_shipping_first_name = first_name, Order_shipping_last_name = last_name,
             Order_shipping_address_line1 = line1,
             Order_shipping_address_line2 = dict_get shipping_data ''shipping_address_line2'',
             Order_shipping_city = city, Order_shipping_state = state,
             Order_shipping_postal_code = postal_code, Order_shipping_country = country,
             Order_created_at = utcnow e 1, Order_updated_at = utcnow e 2\<rparr>)))))))"

text \<open>
  The first component of the result is what the caller gets, the returned order or the
  exception raised; the second is the store as the call leaves it, the commits made
  before an exception included. The order is refreshed after its own commit, so the test
  of \<open>order.id\<close> reads a loaded object. The commit of the order item comes after that
  refresh and nothing refreshes the order again: the order that \<open>create_order\<close> returns
  is expired when the session closes.
\<close>

definition create_order ::
  "env \<Rightarrow> Customer \<Rightarrow> Product \<Rightarrow> dict \<Rightarrow> store \<Rightarrow> (error + Order object) \<times> store"
where
  "create_order e customer product shipping_data s =
     (let order_number = order_number_of e in
      case Customer_id customer of
        None \<Rightarrow> (Inl (ValueError ''Customer must have an ID''), s)
      | Some cid \<Rightarrow>
          (case new_order e order_number cid product shipping_data of
             Inl err \<Rightarrow> (Inl err, s)
           | Inr ord \<Rightarrow>
               (case add_order ord s of
                  Inl err \<Rightarrow> (Inl err, s)
                | Inr (order, s1) \<Rightarrow>
                    (case Order_id order of
                       None \<Rightarrow> (Inl (ValueError ''Order must have an ID after creation''), s1)
                     | Some oid \<Rightarrow>
                         (case Product_id product of
                            None \<Rightarrow> (Inl (ValueError ''Product must have an ID''), s1)
                          | Some pid \<Rightarrow>
                              (case add_order_item
                                      \<lparr>OrderItem_id = None, OrderItem_order_id = oid,
                                       OrderItem_product_id = pid, OrderItem_quantity = 1,
                                       OrderItem_unit_price = Product_price product,
                                       OrderItem_total_price = Product_price product\<rparr> s1 of
                                 Inl err \<Rightarrow> (Inl err, s1)
                               | Inr (order_item, s2) \<Rightarrow> (Inr Expired, s2)))))))"

definition get_order_by_id :: "store \<Rightarrow> int \<Rightarrow> Order option" where
  "get_order_by_id s order_id = find (\<lambda>x. Order_id x = Some order_id) (orders s)"

definition update_order_status :: "env \<Rightarrow> int \<Rightarrow> OrderStatus \<Rightarrow> store \<Rightarrow> Order option \<times> store" where
  "update_order_status e order_id status s =
     (case get_order_by_id s order_id of
        None \<Rightarrow> (None, s)
      | Some ord \<Rightarrow>
          (let order = ord\<lparr>Order_status := status, Order_updated_at := utcnow e 0\<rparr>
           in (Some order, s\<lparr>orders := replace_order order (orders s)\<rparr>)))"

subsection \<open>PaymentService\<close>

text \<open>
  The statement \<open>select(Payment).where(Payment.paypal_payment_id == payment_id)\<close>, which
  \<open>get_payment_by_id\<close>, \<open>complete_paypal_payment\<close> and \<open>cancel_paypal_payment\<close> all run.
  \<open>paypal_payment_id\<close> is not a unique column: several rows can match.
\<close>

definition payments_with_id :: "store \<Rightarrow> string \<Rightarrow> Payment list" where
  "payments_with_id s payment_id =
     filter (\<lambda>p. Payment_paypal_payment_id p = Some payment_id) (payments s)"

definition get_payment_by_id :: "env \<Rightarrow> store \<Rightarrow> string \<Rightarrow> Payment option" where
  "get_payment_by_id e s payment_id = first (row_order e) (payments_with_id s payment_id)"

text \<open>The readings of the checkout operation and of the three service calls it makes.\<close>

record checkout_env =
  payment_env :: env
  customer_env :: env
  order_env :: env
  status_env :: env

definition shipping_data_of :: "PayPalPaymentRequest \<Rightarrow> dict" where
  "shipping_data_of request =
     [''shipping_first_name'' \<mapsto> Some (Request_customer_first_name request),
      ''shipping_last_name'' \<mapsto> Some (Request_customer_last_name request),
      ''shipping_address_line1'' \<mapsto> Some (Request_shipping_address_line1 request),
      ''shipping_address_line2'' \<mapsto> Request_shipping_address_line2 request,
      ''shipping_city'' \<mapsto> Some (Request_shipping_city request),
      ''shipping_state'' \<mapsto> Some (Request_shipping_state request),
      ''shipping_postal_code'' \<mapsto> Some (Request_shipping_postal_code request),
      ''shipping_country'' \<mapsto> Some (Request_shipping_country request)]"

text \<open>
  The body of the \<open>try\<close> block of \<open>create_paypal_payment\<close>. \<open>Inr None\<close> is one of its
  three \<open>return None\<close> statements (product not found, not active, out of stock),
  \<open>Inl err\<close> an exception on its way to the handler. The product and the customer come
  from sessions that loaded or refreshed them last; the order comes from \<open>create_order\<close>,
  and \<open>order.id\<close> is read after that session has closed.
\<close>

definition create_paypal_payment_try ::
  "checkout_env \<Rightarrow> PayPalPaymentRequest \<Rightarrow> store \<Rightarrow> (error + PayPalPaymentResponse option) \<times> store"
where
  "create_paypal_payment_try E request s =
     (case get_product_by_id s (Request_product_id request) of
        None \<Rightarrow> (Inr None, s)
      | Some product \<Rightarrow>
          if \<not> Product_is_active product then (Inr None, s)
          else if Product_stock_quantity product \<le> 0 then (Inr None, s)
          else
            (case get_or_create_customer (customer_env E)
                    (Request_customer_email request) (Request_customer_first_name request)
                    (Request_customer_last_name request) (Request_phone request) s of
               (Inl err, s1) \<Rightarrow> (Inl err, s1)
             | (Inr customer, s1) \<Rightarrow>
                 (case create_order (order_env E) customer product (shipping_data_of request) s1 of
                    (Inl err, s2) \<Rightarrow> (Inl err, s2)
                  | (Inr order, s2) \<Rightarrow>
                      (let payment_id =
                             ''PAY-'' @ take 20 (upper (remove_dashes (uuid4 (payment_env E))));
                           payment_url =
                             ''https://sandbox.paypal.com/checkoutnow?token='' @ payment_id
                       in case read_fields order of
                            Inl err \<Rightarrow> (Inl err, s2)
                          | Inr ord \<Rightarrow>
                          (case Order_id ord of
                            None \<Rightarrow> (Inl (ValueError ''Order must have an ID''), s2)
                          | Some oid \<Rightarrow>
                              (case add_payment
                                      \<lparr>Payment_id = None, Payment_order_id = oid,
                                       Payment_payment_method = ''paypal'',
                                       Payment_status = P_PENDING,
                                       Payment_amount = Product_price product,
                                       Payment_currency = ''USD'',
                                       Payment_paypal_payment_id = Some payment_id,
                                       Payment_paypal_payer_id = None,
                                       Payment_paypal_payment_token = Some payment_id,
                                       Payment_transaction_id = None,
                                       Payment_payment_data =
                                         Some [(''product_name'', Product_name product),
                                               (''customer_email'', Request_customer_email request),
                                               (''created_via'', ''web_store'')],
                                       Payment_created_at = utcnow (payment_env E) 0,
                                       Payment_updated_at = utcnow (payment_env E) 1,
                                       Payment_completed_at = None\<rparr> s2 of
                                 Inl err \<Rightarrow> (Inl err, s2)
                               | Inr (payment, s3) \<Rightarrow>
                                   (let (updated, s4) =
                                          update_order_status (status_env E) oid PAYMENT_PENDING s3
                                    in (Inr (Some \<lparr>Response_payment_id = payment_id,
                                                    Response_payment_url = payment_url,
                                                    Response_order_id = oid,
                                                    Response_status = P_PENDING\<rparr>), s4))))))))"

text \<open>\<open>except Exception\<close>: whatever was raised is logged and \<open>None\<close> is returned.\<close>

definition create_paypal_payment ::
  "checkout_env \<Rightarrow> PayPalPaymentRequest \<Rightarrow> store \<Rightarrow> PayPalPaymentResponse option \<times> store"
where
  "create_paypal_payment E request s =
     (case create_paypal_payment_try E request s of
        (Inl err, s') \<Rightarrow> (None, s')
      | (Inr response, s') \<Rightarrow> (response, s'))"

text \<open>
  \<open>complete_paypal_payment\<close>: \<open>e\<close> holds its own readings, \<open>e'\<close> those of the call of
  \<open>update_order_status\<close>. \<open>Payment.order_id\<close> is a plain \<open>int\<close> column, so the test
  \<open>payment.order_id is not None\<close> holds for every row read from the store; it is read
  inside the session, which loads the expired payment again. The commit writes the
  payer id and a new \<open>transaction_id\<close>, text columns of length 100, the second of them
  unique.
\<close>

definition transaction_id_of :: "env \<Rightarrow> string" where
  "transaction_id_of e = ''TXN-'' @ take 16 (upper (remove_dashes (uuid4 e)))"

definition complete_paypal_payment_try ::
  "env \<Rightarrow> env \<Rightarrow> string \<Rightarrow> string \<Rightarrow> store \<Rightarrow> (error + bool) \<times> store"
where
  "complete_paypal_payment_try e e' payment_id payer_id s =
     (case get_payment_by_id e s payment_id of
        None \<Rightarrow> (Inr False, s)
      | Some p \<Rightarrow>
          (let payment = p\<lparr>Payment_status := P_COMPLETED,
                           Payment_paypal_payer_id := Some payer_id,
                           Payment_completed_at := Some (utcnow e 0),
                           Payment_updated_at := utcnow e 1,
                           Payment_transaction_id := Some (transaction_id_of e)\<rparr>
           in if \<not> (max_length_opt 100 (Payment_paypal_payer_id payment)
                     \<and> max_length_opt 100 (Payment_transaction_id payment))
              then (Inl (DataError ''payments''), s)
              else if transaction_id_taken (Payment_id payment) (Payment_transaction_id payment)
                   (payments s)
              then (Inl (IntegrityError ''payments.transaction_id''), s)
              else
                (let s1 = s\<lparr>payments := replace_payment payment (payments s)\<rparr>;
                     (updated, s2) = update_order_status e' (Payment_order_id payment) PAID s1
                 in (Inr True, s2))))"

definition complete_paypal_payment ::
  "env \<Rightarrow> env \<Rightarrow> string \<Rightarrow> string \<Rightarrow> store \<Rightarrow> bool \<times> store"
where
  "complete_paypal_payment e e' payment_id payer_id s =
     (case complete_paypal_payment_try e e' payment_id payer_id s of
        (Inl err, s') \<Rightarrow> (False, s')
      | (Inr ok, s') \<Rightarrow> (ok, s'))"

text \<open>
  \<open>cancel_paypal_payment\<close>: its commit writes \<open>status\<close> and \<open>updated_at\<close> only, neither
  of them a text, unique or referencing column, so no step of its \<open>try\<close> block raises.
\<close>

definition cancel_paypal_payment :: "env \<Rightarrow> env \<Rightarrow> string \<Rightarrow> store \<Rightarrow> bool \<times> store" where
  "cancel_paypal_payment e e' payment_id s =
     (case get_payment_by_id e s payment_id of
        None \<Rightarrow> (False, s)
      | Some p \<Rightarrow>
          (let payment = p\<lparr>Payment_status := P_CANCELLED, Payment_updated_at := utcnow e 0\<rparr>;
               s1 = s\<lparr>payments := replace_payment payment (payments s)\<rparr>;
               (updated, s2) = update_order_status e' (Payment_order_id payment) CANCELLED s1
           in (True, s2)))"

section \<open>Well-formed stores and calls\<close>

text \<open>
  Every row that a database hands out carries its primary key, and an order item names
  a stored order (\<open>foreign_key="orders.id"\<close>). The lists of the model do not enforce
  either for the rows that are already there, so the two conditions are stated where a
  property needs them.
\<close>

definition stored_customers_have_ids :: "store \<Rightarrow> bool" where
  "stored_customers_have_ids s = (None \<notin> set (map Customer_id (customers s)))"



text \<open>
  The keys that \<open>create_order\<close> reads from \<open>shipping_data\<close> with \<open>[...]\<close>; a dict has its
  shipping fields when it holds text, not \<open>None\<close>, under each of them.
\<close>

definition required_shipping_keys :: "string list" where
  "required_shipping_keys =
     [''shipping_first_name'', ''shipping_last_name'', ''shipping_address_line1'',
      ''shipping_city'', ''shipping_state'', ''shipping_postal_code'', ''shipping_country'']"

definition holds_text :: "dict \<Rightarrow> string \<Rightarrow> bool" where
  "holds_text d k = (case d k of Some (Some v) \<Rightarrow> True | _ \<Rightarrow> False)"

definition has_shipping_fields :: "dict \<Rightarrow> bool" where
  "has_shipping_fields d = list_all (holds_text d) required_shipping_keys"

text \<open>The values of a shipping dict are within the lengths of the columns they go to.\<close>

definition shipping_fields_fit :: "dict \<Rightarrow> bool" where
  "shipping_fields_fit d =
     (max_length_opt 100 (dict_get d ''shipping_first_name'')
      \<and> max_length_opt 100 (dict_get d ''shipping_last_name'')
      \<and> max_length_opt 255 (dict_get d ''shipping_address_line1'')
      \<and> max_length_opt 255 (dict_get d ''shipping_address_line2'')
      \<and> max_length_opt 100 (dict_get d ''shipping_city'')
      \<and> max_length_opt 100 (dict_get d ''shipping_state'')
      \<and> max_length_opt 20 (dict_get d ''shipping_postal_code'')
      \<and> max_length_opt 100 (dict_get d ''shipping_country''))"

text \<open>
  The stored payments that carry a payment id are all one and the same record: the
  query for the id then yields that record whatever the row order.
\<close>

definition sole_payment :: "store \<Rightarrow> string \<Rightarrow> Payment \<Rightarrow> bool" where
  "sole_payment s payment_id p =
     (payments_with_id s payment_id \<noteq> [] \<and> list_all (\<lambda>q. q = p) (payments_with_id s payment_id))"

section \<open>Example data\<close>

text \<open>
  A small catalogue and a ledger with one order that awaits its payment, used to run
  the services on concrete inputs.
\<close>

definition example_datetime :: datetime where
  "example_datetime = \<lparr>year = 2026, month = 11, day = 4, time_of_day = 0\<rparr>"

definition example_env :: env where
  "example_env =
     \<lparr>utcnow = (\<lambda>n. example_datetime), uuid4 = ''1a2b3c4d-5e6f-4a1b-8c2d-0123456789ab'',
      row_order = 0\<rparr>"

definition other_env :: env where
  "other_env =
     \<lparr>utcnow = (\<lambda>n. example_datetime), uuid4 = ''0f0e0d0c-0b0a-4908-8706-050403020100'',
      row_order = 1\<rparr>"

definition example_checkout_env :: checkout_env where
  "example_checkout_env =
     \<lparr>payment_env = other_env, customer_env = example_env,
      order_env = example_env, status_env = example_env\<rparr>"

definition example_product :: Product where
  "example_product =
     \<lparr>Product_id = Some 1, Product_name = ''Core Test Product'',
      Product_description = ''A product for core testing'', Product_price = 9999,
      Product_is_active = True, Product_stock_quantity = 5, Product_sku = Some ''CORE-001'',
      Product_category = Some ''Testing'', Product_image_url = None,
      Product_created_at = example_datetime, Product_updated_at = example_datetime\<rparr>"

definition sold_out_product :: Product where
  "sold_out_product =
     \<lparr>Product_id = Some 2, Product_name = ''Precision Test'',
      Product_description = ''Testing decimal precision'', Product_price = 12345,
      Product_is_active = True, Product_stock_quantity = 0, Product_sku = None,
      Product_category = None, Product_image_url = None,
      Product_created_at = example_datetime, Product_updated_at = example_datetime\<rparr>"

definition inactive_product :: Product where
  "inactive_product =
     \<lparr>Product_id = Some 3, Product_name = ''Inactive Product'',
      Product_description = ''This is inactive'', Product_price = 2500,
      Product_is_active = False, Product_stock_quantity = 4, Product_sku = None,
      Product_category = None, Product_image_url = None,
      Product_created_at = example_datetime, Product_updated_at = example_datetime\<rparr>"

definition example_catalog :: store where
  "example_catalog =
     \<lparr>products = [example_product, sold_out_product, inactive_product], customers = [],
      orders = [], order_items = [], payments = []\<rparr>"

definition example_request :: "int \<Rightarrow> PayPalPaymentRequest" where
  "example_request product_id =
     \<lparr>Request_product_id = product_id, Request_customer_email = ''jane@example.com'',
      Request_customer_first_name = ''Jane'', Request_customer_last_name = ''Smith'',
      Request_shipping_address_line1 = ''123 Main Street'',
      Request_shipping_address_line2 = None, Request_shipping_city = ''New York'',
      Request_shipping_state = ''NY'', Request_shipping_postal_code = ''10001'',
      Request_shipping_country = ''United States'', Request_phone = None\<rparr>"

definition example_customer :: Customer where
  "example_customer =
     \<lparr>Customer_id = Some 1, Customer_email = ''jane@example.com'',
      Customer_first_name = ''Jane'', Customer_last_name = ''Smith'', Customer_phone = None,
      Customer_created_at = example_datetime, Customer_updated_at = example_datetime\<rparr>"

definition example_order :: Order where
  "example_order =
     \<lparr>Order_id = Some 1, Order_order_number = ''ORD-20261104-1A2B3C4D'',
      Order_customer_id = 1, Order_status = PAYMENT_PENDING, Order_total_amount = 9999,
      Order_currency = ''USD'', Order_shipping_first_name = Some ''Jane'',
      Order_shipping_last_name = Some ''Smith'',
      Order_shipping_address_line1 = Some ''123 Main Street'',
      Order_shipping_address_line2 = None, Order_shipping_city = Some ''New York'',
      Order_shipping_state = Some ''NY'', Order_shipping_postal_code = Some ''10001'',
      Order_shipping_country = Some ''United States'',
      Order_created_at = example_datetime, Order_updated_at = example_datetime\<rparr>"

definition example_order_item :: OrderItem where
  "example_order_item =
     \<lparr>OrderItem_id = Some 1, OrderItem_order_id = 1, OrderItem_product_id = 1,
      OrderItem_quantity = 1, OrderItem_unit_price = 9999, OrderItem_total_price = 9999\<rparr>"

definition example_payment :: Payment where
  "example_payment =
     \<lparr>Payment_id = Some 1, Payment_order_id = 1, Payment_payment_method = ''paypal'',
      Payment_status = P_PENDING, Payment_amount = 9999, Payment_currency = ''USD'',
      Payment_paypal_payment_id = Some ''PAY-0F0E0D0C0B0A49088706'',
      Payment_paypal_payer_id = None,
      Payment_paypal_payment_token = Some ''PAY-0F0E0D0C0B0A49088706'',
      Payment_transaction_id = None,
      Payment_payment_data =
        Some [(''product_name'', ''Core Test Product''),
              (''customer_email'', ''jane@example.com''), (''created_via'', ''web_store'')],
      Payment_created_at = example_datetime, Payment_updated_at = example_datetime,
      Payment_completed_at = None\<rparr>"

definition example_ledger :: store where
  "example_ledger =
     \<lparr>products = [example_product, sold_out_product, inactive_product],
      customers = [example_customer], orders = [example_order],
      order_items = [example_order_item], payments = [example_payment]\<rparr>"

text \<open>
  A ledger with a second order whose payment is still pending, next to a first payment
  that was completed with the transaction id that \<open>example_env\<close> yields.
\<close>

definition completed_payment :: Payment where
  "completed_payment =
     example_payment
       \<lparr>Payment_status := P_COMPLETED, Payment_paypal_payer_id := Some ''PAYER49088706'',
        Payment_transaction_id := Some ''TXN-1A2B3C4D5E6F4A1B'',
        Payment_completed_at := Some example_datetime\<rparr>"

definition second_order :: Order where
  "second_order =
     example_order\<lparr>Order_id := Some 2, Order_order_number := ''ORD-20261104-77777777''\<rparr>"

definition second_order_item :: OrderItem where
  "second_order_item = example_order_item\<lparr>OrderItem_id := Some 2, OrderItem_order_id := 2\<rparr>"

definition second_payment :: Payment where
  "second_payment =
     example_payment
       \<lparr>Payment_id := Some 2, Payment_order_id := 2,
        Payment_paypal_payment_id := Some ''PAY-99999999999999999999'',
        Payment_paypal_payment_token := Some ''PAY-99999999999999999999''\<rparr>"

definition busy_ledger :: store where
  "busy_ledger =
     \<lparr>products = [example_product, sold_out_product, inactive_product],
      customers = [example_customer],
      orders = [example_order\<lparr>Order_status := PAID\<rparr>, second_order],
      order_items = [example_order_item, second_order_item],
      payments = [completed_payment, second_payment]\<rparr>"



text \<open>
  A text of 101 characters, a customer object with an id that no stored customer has,
  and a ledger whose two payments carry the same payment id.
\<close>

definition long_text :: string where
  "long_text = replicate 101 (CHR ''x'')"


definition twin_payment :: Payment where
  "twin_payment = second_payment\<lparr>Payment_paypal_payment_id := Some ''PAY-0F0E0D0C0B0A49088706''\<rparr>"

definition twin_ledger :: store where
  "twin_ledger =
     \<lparr>products = [example_product, sold_out_product, inactive_product],
      customers = [example_customer],
      orders = [example_order, second_order],
      order_items = [example_order_item, second_order_item],
      payments = [example_payment, twin_payment]\<rparr>"

section \<open>Facts about the store\<close>




lemma find_append_None: "find P xs = None \<Longrightarrow> find P (xs @ ys) = find P ys"
  by (induction xs) (auto split: if_splits)

lemma find_append_Some: "find P xs = Some x \<Longrightarrow> find P (xs @ ys) = Some x"
  by (induction xs) (auto split: if_splits)

lemma find_SomeD: "find P xs = Some x \<Longrightarrow> P x \<and> x \<in> set xs"
  by (induction xs) (auto split: if_splits)

lemma find_map_replace:
  assumes "find P xs = Some x" and "P y" and "Q x"
  shows "find P (map (\<lambda>z. if Q z then y else z) xs) = Some y"
  using assms by (induction xs) (auto split: if_splits)

lemma find_map_other:
  assumes "\<And>z. P z \<Longrightarrow> \<not> Q z" and "\<not> P y"
  shows "find P (map (\<lambda>z. if Q z then y else z) xs) = find P xs"
  using assms by (induction xs) (auto split: if_splits)

lemma get_order_replace:
  assumes "get_order_by_id s k = Some ord" and "Order_id ord' = Order_id ord"
  shows "get_order_by_id (s\<lparr>orders := replace_order ord' (orders s)\<rparr>) k = Some ord'"
proof -
  from assms(1) have k: "Order_id ord = Some k"
    by (auto simp: get_order_by_id_def dest: find_SomeD)
  show ?thesis
    using assms(1) unfolding get_order_by_id_def replace_order_def
    by (simp, intro find_map_replace) (auto simp: k assms(2))
qed

text \<open>Queries for a payment id.\<close>

lemma first_all_equal:
  assumes "rows \<noteq> []" and "list_all (\<lambda>q. q = p) rows"
  shows "first n rows = Some p"
proof -
  from assms(1) have "n mod length rows < length rows" by simp
  then have "rows ! (n mod length rows) \<in> set rows" by (rule nth_mem)
  with assms(2) have "rows ! (n mod length rows) = p" by (simp add: list_all_iff)
  with assms(1) show ?thesis by (simp add: first_def)
qed

lemma first_SomeD: "first n rows = Some x \<Longrightarrow> x \<in> set rows"
  by (auto simp: first_def split: if_splits)

lemma first_None_iff: "first n rows = None \<longleftrightarrow> rows = []"
  by (simp add: first_def)

lemma sole_payment_single: "payments_with_id s payment_id = [p] \<Longrightarrow> sole_payment s payment_id p"
  by (simp add: sole_payment_def)

lemma get_payment_by_id_sole:
  "sole_payment s payment_id p \<Longrightarrow> get_payment_by_id e s payment_id = Some p"
  by (simp add: sole_payment_def get_payment_by_id_def first_all_equal)

lemma sole_payment_stored:
  assumes "sole_payment s payment_id p"
  shows "p \<in> set (payments s)" and "Payment_paypal_payment_id p = Some payment_id"
proof -
  from assms obtain q where "q \<in> set (payments_with_id s payment_id)"
    by (cases "payments_with_id s payment_id") (auto simp: sole_payment_def)
  moreover from this assms have "q = p" by (simp add: sole_payment_def list_all_iff)
  ultimately have "p \<in> set (payments_with_id s payment_id)" by simp
  then show "p \<in> set (payments s)" and "Payment_paypal_payment_id p = Some payment_id"
    by (simp_all add: payments_with_id_def)
qed

lemma sole_payment_cong:
  "payments s' = payments s \<Longrightarrow> sole_payment s' payment_id p = sole_payment s payment_id p"
  by (simp add: sole_payment_def payments_with_id_def)

text \<open>Rewriting the one payment of an id leaves the rewritten record as the one.\<close>

lemma sole_payment_replace:
  assumes sole: "sole_payment s payment_id p"
    and pk: "Payment_id p' = Payment_id p"
    and pid: "Payment_paypal_payment_id p' = Some payment_id"
  shows "sole_payment (s\<lparr>payments := replace_payment p' (payments s)\<rparr>) payment_id p'"
proof -
  let ?s' = "s\<lparr>payments := replace_payment p' (payments s)\<rparr>"
  have mem: "p \<in> set (payments s)"
    using sole by (rule sole_payment_stored)
  then have "p' \<in> set (replace_payment p' (payments s))"
    using pk by (force simp: replace_payment_def)
  with pid have "p' \<in> set (payments_with_id ?s' payment_id)"
    by (simp add: payments_with_id_def)
  then have ne: "payments_with_id ?s' payment_id \<noteq> []"
    by auto
  have "q = p'" if q: "q \<in> set (payments_with_id ?s' payment_id)" for q
  proof -
    from q obtain x where x: "x \<in> set (payments s)"
      and qx: "q = (if Payment_id x = Payment_id p' then p' else x)"
      and qp: "Payment_paypal_payment_id q = Some payment_id"
      by (auto simp: payments_with_id_def replace_payment_def)
    show ?thesis
    proof (cases "Payment_id x = Payment_id p'")
      case True
      with qx show ?thesis by simp
    next
      case False
      with qx qp x have "x \<in> set (payments_with_id s payment_id)"
        by (simp add: payments_with_id_def)
      with sole have "x = p" by (simp add: sole_payment_def list_all_iff)
      with False pk show ?thesis by simp
    qed
  qed
  with ne show ?thesis by (simp add: sole_payment_def list_all_iff)
qed


lemma get_order_by_id_cong:
  "orders s' = orders s \<Longrightarrow> get_order_by_id s' k = get_order_by_id s k"
  by (simp add: get_order_by_id_def)

lemma update_order_status_found:
  assumes "get_order_by_id s k = Some ord"
  shows "update_order_status e k st s
       = (Some (ord\<lparr>Order_status := st, Order_updated_at := utcnow e 0\<rparr>),
          s\<lparr>orders := replace_order (ord\<lparr>Order_status := st, Order_updated_at := utcnow e 0\<rparr>)
                        (orders s)\<rparr>)"
  using assms by (simp add: update_order_status_def Let_def)

lemma update_order_status_payments:
  "payments (snd (update_order_status e k st s)) = payments s"
  by (simp add: update_order_status_def Let_def split: option.splits)

lemma update_order_status_get:
  assumes "get_order_by_id s k = Some ord"
  shows "get_order_by_id (snd (update_order_status e k st s)) k
       = Some (ord\<lparr>Order_status := st, Order_updated_at := utcnow e 0\<rparr>)"
proof -
  have "get_order_by_id
          (s\<lparr>orders := replace_order (ord\<lparr>Order_status := st, Order_updated_at := utcnow e 0\<rparr>)
                        (orders s)\<rparr>) k
        = Some (ord\<lparr>Order_status := st, Order_updated_at := utcnow e 0\<rparr>)"
    using assms by (rule get_order_replace) simp
  then show ?thesis by (simp add: update_order_status_found [OF assms])
qed

section \<open>Status updates of orders\<close>

text \<open>
  C6. \<open>update_order_status\<close> checks no transition: for an order that is in the store,
  whatever its current status, and for any status value, the call returns the order with
  that status and the store then holds it under the same id; for an id that is not in
  the store it returns \<open>None\<close> and leaves the store as it was.
\<close>

theorem update_order_status_any_transition:
  "(get_order_by_id s order_id = Some ord \<longrightarrow>
      (\<exists>order. fst (update_order_status e order_id status s) = Some order
         \<and> Order_status order = status
         \<and> get_order_by_id (snd (update_order_status e order_id status s)) order_id
             = Some order))
   \<and> (get_order_by_id s order_id = None \<longrightarrow>
        update_order_status e order_id status s = (None, s))"
proof (intro conjI impI)
  assume h: "get_order_by_id s order_id = Some ord"
  let ?order = "ord\<lparr>Order_status := status, Order_updated_at := utcnow e 0\<rparr>"
  have r: "update_order_status e order_id status s
        = (Some ?order, s\<lparr>orders := replace_order ?order (orders s)\<rparr>)"
    using h by (simp add: update_order_status_def Let_def)
  have "get_order_by_id (s\<lparr>orders := replace_order ?order (orders s)\<rparr>) order_id = Some ?order"
    using h by (rule get_order_replace) simp
  with r show "\<exists>order. fst (update_order_status e order_id status s) = Some order
         \<and> Order_status order = status
         \<and> get_order_by_id (snd (update_order_status e order_id status s)) order_id
             = Some order"
    by simp
next
  assume "get_order_by_id s order_id = None"
  then show "update_order_status e order_id status s = (None, s)"
    by (simp add: update_order_status_def)
qed

theorem update_order_status_any_transition_witness:
  "get_order_by_id example_ledger 1 = Some example_order
   \<and> Order_status example_order = PAYMENT_PENDING
   \<and> (\<exists>order. fst (update_order_status example_env 1 CREATED example_ledger) = Some order
         \<and> Order_status order = CREATED
         \<and> get_order_by_id (snd (update_order_status example_env 1 CREATED example_ledger)) 1
             = Some order)
   \<and> get_order_by_id example_ledger 7 = None
   \<and> update_order_status example_env 7 PAID example_ledger = (None, example_ledger)"
  using update_order_status_any_transition [of example_ledger 1 example_order example_env CREATED]
    update_order_status_any_transition [of example_ledger 7 example_order example_env PAID]
  by (simp add: get_order_by_id_def example_ledger_def example_order_def)

section \<open>Customers\<close>

lemma get_or_create_customer_cases:
  assumes "CustomerCreate_valid email fn ln ph"
  shows "(\<exists>c. get_or_create_customer e email fn ln ph s = (Inr c, s)
        \<and> find (\<lambda>x. Customer_email x = email) (customers s) = Some c)
   \<or> (\<exists>c. get_or_create_customer e email fn ln ph s
             = (Inr c, s\<lparr>customers := customers s @ [c]\<rparr>)
          \<and> Customer_id c = Some (next_id (map Customer_id (customers s))))"
proof (cases "find (\<lambda>c. Customer_email c = email) (customers s)")
  case (Some c)
  then show ?thesis by (simp add: get_or_create_customer_def)
next
  case None
  then have "email \<notin> set (map Customer_email (customers s))"
    by (auto simp: find_None_iff)
  with None assms show ?thesis
    by (simp add: get_or_create_customer_def add_customer_def Let_def Customer_fits_def
          CustomerCreate_valid_def)
qed

text \<open>
  C7. Two calls of \<open>get_or_create_customer\<close> with the same email, the second with any
  other names and phone. The first call returns a customer record when its fields pass
  the constraints of \<open>CustomerCreate\<close>, and also when the email is already stored.
  Whenever it returns a record, that record is in the store and has the email; when the
  email was not stored before, it is the one new row, with a new id and with the names
  and phone of the first call, and when the email was stored, the store is as it was. In
  a store whose customer rows carry their primary keys the record has an id. The second
  call returns that same record (so the same id) and leaves the store exactly as the
  first call left it; its names and phone are not even validated.
\<close>

theorem get_or_create_customer_first_write_wins:
  "(CustomerCreate_valid email first_name last_name phone
      \<or> email \<in> set (map Customer_email (customers s))
    \<longrightarrow> (\<exists>c. fst (get_or_create_customer e email first_name last_name phone s) = Inr c))
   \<and> (\<forall>c. fst (get_or_create_customer e email first_name last_name phone s) = Inr c
        \<longrightarrow> c \<in> set (customers (snd (get_or_create_customer e email first_name last_name
                                        phone s)))
          \<and> Customer_email c = email
          \<and> (email \<notin> set (map Customer_email (customers s))
              \<longrightarrow> customers (snd (get_or_create_customer e email first_name last_name phone s))
                    = customers s @ [c]
                \<and> Customer_id c = Some (next_id (map Customer_id (customers s)))
                \<and> Customer_first_name c = first_name
                \<and> Customer_last_name c = last_name
                \<and> Customer_phone c = phone)
          \<and> (email \<in> set (map Customer_email (customers s))
              \<longrightarrow> snd (get_or_create_customer e email first_name last_name phone s) = s
                \<and> c \<in> set (customers s))
          \<and> (stored_customers_have_ids s \<longrightarrow> Customer_id c \<noteq> None)
          \<and> get_or_create_customer e' email first_name' last_name' phone'
                (snd (get_or_create_customer e email first_name last_name phone s))
              = (Inr c, snd (get_or_create_customer e email first_name last_name phone s)))"
proof (cases "find (\<lambda>c. Customer_email c = email) (customers s)")
  case (Some c)
  then have c: "c \<in> set (customers s)" "Customer_email c = email"
    by (auto dest: find_SomeD)
  then have "email \<in> set (map Customer_email (customers s))"
    by force
  moreover have "stored_customers_have_ids s \<longrightarrow> Customer_id c \<noteq> None"
    using c(1) by (force simp: stored_customers_have_ids_def)
  ultimately show ?thesis
    using Some c by (simp add: get_or_create_customer_def)
next
  case None
  then have "email \<notin> set (map Customer_email (customers s))"
    by (auto simp: find_None_iff)
  with None show ?thesis
    by (simp add: get_or_create_customer_def add_customer_def Let_def find_append_None
          Customer_fits_def CustomerCreate_valid_def)
qed

theorem get_or_create_customer_first_write_wins_witness:
  "CustomerCreate_valid ''jane@example.com'' ''Jane'' ''Smith'' None
   \<and> ''jane@example.com'' \<notin> set (map Customer_email (customers example_catalog))
   \<and> stored_customers_have_ids example_catalog
   \<and> (\<exists>c. fst (get_or_create_customer example_env ''jane@example.com'' ''Jane'' ''Smith'' None
                  example_catalog) = Inr c
         \<and> customers (snd (get_or_create_customer example_env ''jane@example.com'' ''Jane''
                              ''Smith'' None example_catalog)) = [c]
         \<and> Customer_email c = ''jane@example.com''
         \<and> Customer_id c = Some 1
         \<and> Customer_first_name c = ''Jane''
         \<and> get_or_create_customer other_env ''jane@example.com'' ''Different Name''
              ''Different Last'' (Some ''123-456-7890'')
              (snd (get_or_create_customer example_env ''jane@example.com'' ''Jane'' ''Smith''
                      None example_catalog))
            = (Inr c, snd (get_or_create_customer example_env ''jane@example.com'' ''Jane''
                             ''Smith'' None example_catalog)))"
proof -
  note T = get_or_create_customer_first_write_wins
        [where email = "''jane@example.com''" and first_name = "''Jane''"
           and last_name = "''Smith''" and phone = None and s = example_catalog
           and e = example_env and e' = other_env and first_name' = "''Different Name''"
           and last_name' = "''Different Last''" and phone' = "Some ''123-456-7890''"]
  have v: "CustomerCreate_valid ''jane@example.com'' ''Jane'' ''Smith'' None"
    by (simp add: CustomerCreate_valid_def max_length_opt_def)
  have n: "''jane@example.com'' \<notin> set (map Customer_email (customers example_catalog))"
    by (simp add: example_catalog_def)
  have w: "stored_customers_have_ids example_catalog"
    by (simp add: stored_customers_have_ids_def example_catalog_def)
  have k: "next_id (map Customer_id (customers example_catalog)) = 1"
    by (simp add: next_id_def example_catalog_def)
  have e: "customers example_catalog = []"
    by (simp add: example_catalog_def)
  from T v obtain c where
    c: "fst (get_or_create_customer example_env ''jane@example.com'' ''Jane'' ''Smith'' None
               example_catalog) = Inr c"
    by blast
  with T n have
    "customers (snd (get_or_create_customer example_env ''jane@example.com'' ''Jane''
                       ''Smith'' None example_catalog)) = customers example_catalog @ [c]"
    "Customer_email c = ''jane@example.com''"
    "Customer_id c = Some (next_id (map Customer_id (customers example_catalog)))"
    "Customer_first_name c = ''Jane''"
    "get_or_create_customer other_env ''jane@example.com'' ''Different Name''
              ''Different Last'' (Some ''123-456-7890'')
              (snd (get_or_create_customer example_env ''jane@example.com'' ''Jane'' ''Smith''
                      None example_catalog))
            = (Inr c, snd (get_or_create_customer example_env ''jane@example.com'' ''Jane''
                             ''Smith'' None example_catalog))"
    by blast+
  with v n w c k e show ?thesis by auto
qed

section \<open>Products are never written\<close>

lemma get_or_create_customer_products:
  "get_or_create_customer e email fn ln ph s = (r, s1) \<Longrightarrow> products s1 = products s"
  by (auto simp: get_or_create_customer_def add_customer_def Let_def
           split: option.splits sum.splits if_splits)

lemma create_order_products:
  "create_order e customer product d s = (r, s1) \<Longrightarrow> products s1 = products s"
  by (auto simp: create_order_def add_order_def add_order_item_def Let_def
           split: option.splits sum.splits if_splits prod.splits)

lemma update_order_status_products:
  "update_order_status e k st s = (r, s1) \<Longrightarrow> products s1 = products s"
  by (auto simp: update_order_status_def Let_def split: option.splits)

lemma create_paypal_payment_try_products:
  "create_paypal_payment_try E request s = (r, s') \<Longrightarrow> products s' = products s"
  unfolding create_paypal_payment_try_def
  by (auto simp: Let_def add_payment_def
           split: option.splits sum.splits if_splits prod.splits
           dest!: get_or_create_customer_products create_order_products
                  update_order_status_products)

lemma create_paypal_payment_products:
  "products (snd (create_paypal_payment E request s)) = products s"
proof -
  obtain r s' where h: "create_paypal_payment_try E request s = (r, s')"
    by (cases "create_paypal_payment_try E request s")
  then have "products s' = products s"
    by (rule create_paypal_payment_try_products)
  with h show ?thesis
    by (simp add: create_paypal_payment_def split: sum.splits)
qed

lemma complete_paypal_payment_products:
  "products (snd (complete_paypal_payment e e' payment_id payer_id s)) = products s"
  by (auto simp: complete_paypal_payment_def complete_paypal_payment_try_def Let_def
           split: option.splits sum.splits if_splits prod.splits
           dest!: update_order_status_products)

lemma cancel_paypal_payment_products:
  "products (snd (cancel_paypal_payment e e' payment_id s)) = products s"
  by (auto simp: cancel_paypal_payment_def Let_def
           split: option.splits sum.splits if_splits prod.splits
           dest!: update_order_status_products)

text \<open>
  C8. The checkout operation, whether it succeeds or fails, and the completion and
  cancellation of a payment leave the product table as it was: every product record,
  its stock quantity included, is the same after the call as before.
\<close>

theorem payment_operations_keep_products:
  "products (snd (create_paypal_payment E request s)) = products s
   \<and> products (snd (complete_paypal_payment e e' payment_id payer_id s)) = products s
   \<and> products (snd (cancel_paypal_payment e e' payment_id s)) = products s"
  by (simp only: create_paypal_payment_products complete_paypal_payment_products
        cancel_paypal_payment_products)

theorem payment_operations_keep_products_witness:
  "products (snd (create_paypal_payment example_checkout_env (example_request 1) example_catalog))
     = products example_catalog
   \<and> products (snd (complete_paypal_payment example_env other_env ''PAY-0F0E0D0C0B0A49088706''
                      ''PAYER49088706'' example_ledger)) = products example_ledger
   \<and> products (snd (cancel_paypal_payment example_env other_env ''PAY-0F0E0D0C0B0A49088706''
                      example_ledger)) = products example_ledger"
  using payment_operations_keep_products
      [where s = example_catalog and E = example_checkout_env and request = "example_request 1"]
    payment_operations_keep_products
      [where s = example_ledger and e = example_env and e' = other_env
         and payment_id = "''PAY-0F0E0D0C0B0A49088706''" and payer_id = "''PAYER49088706''"]
  by simp

section \<open>The product checks of the checkout operation\<close>

lemma create_paypal_payment_try_not_None:
  assumes "get_product_by_id s (Request_product_id request) = Some product"
    and "Product_is_active product" and "0 < Product_stock_quantity product"
  shows "fst (create_paypal_payment_try E request s) \<noteq> Inr None"
  using assms unfolding create_paypal_payment_try_def
  by (auto simp: Let_def split: option.splits sum.splits prod.splits)

text \<open>
  C3. When the product of the request is not in the store, or is inactive, or has a
  stock quantity of 0 or less, the body of \<open>create_paypal_payment\<close> returns \<open>None\<close>
  (it does not raise) and so does the operation, the store untouched. For a product that
  is in the store, active and in stock, the body does not leave through any of these
  three returns: it raises or returns a response.
\<close>

theorem create_paypal_payment_product_checks:
  "(get_product_by_id s (Request_product_id request) = None
      \<or> (\<exists>product. get_product_by_id s (Request_product_id request) = Some product
            \<and> (\<not> Product_is_active product \<or> Product_stock_quantity product \<le> 0))
    \<longrightarrow> create_paypal_payment_try E request s = (Inr None, s)
        \<and> create_paypal_payment E request s = (None, s))
   \<and> ((\<exists>product. get_product_by_id s (Request_product_id request) = Some product
            \<and> Product_is_active product \<and> 0 < Product_stock_quantity product)
    \<longrightarrow> fst (create_paypal_payment_try E request s) \<noteq> Inr None)"
proof (intro conjI impI)
  assume "get_product_by_id s (Request_product_id request) = None
      \<or> (\<exists>product. get_product_by_id s (Request_product_id request) = Some product
            \<and> (\<not> Product_is_active product \<or> Product_stock_quantity product \<le> 0))"
  then have "create_paypal_payment_try E request s = (Inr None, s)"
    by (auto simp: create_paypal_payment_try_def)
  then show "create_paypal_payment_try E request s = (Inr None, s)"
    and "create_paypal_payment E request s = (None, s)"
    by (simp_all add: create_paypal_payment_def)
next
  assume "\<exists>product. get_product_by_id s (Request_product_id request) = Some product
            \<and> Product_is_active product \<and> 0 < Product_stock_quantity product"
  then show "fst (create_paypal_payment_try E request s) \<noteq> Inr None"
    by (auto dest: create_paypal_payment_try_not_None)
qed

theorem create_paypal_payment_product_checks_witness:
  "get_product_by_id example_catalog 9 = None
   \<and> create_paypal_payment example_checkout_env (example_request 9) example_catalog
       = (None, example_catalog)
   \<and> get_product_by_id example_catalog 3 = Some inactive_product
   \<and> \<not> Product_is_active inactive_product
   \<and> create_paypal_payment example_checkout_env (example_request 3) example_catalog
       = (None, example_catalog)
   \<and> get_product_by_id example_catalog 2 = Some sold_out_product
   \<and> Product_stock_quantity sold_out_product \<le> 0
   \<and> create_paypal_payment example_checkout_env (example_request 2) example_catalog
       = (None, example_catalog)
   \<and> get_product_by_id example_catalog 1 = Some example_product
   \<and> Product_is_active example_product \<and> 0 < Product_stock_quantity example_product
   \<and> fst (create_paypal_payment_try example_checkout_env (example_request 1) example_catalog)
       \<noteq> Inr None"
  using create_paypal_payment_product_checks
      [where s = example_catalog and request = "example_request 9" and E = example_checkout_env]
    create_paypal_payment_product_checks
      [where s = example_catalog and request = "example_request 3" and E = example_checkout_env]
    create_paypal_payment_product_checks
      [where s = example_catalog and request = "example_request 2" and E = example_checkout_env]
    create_paypal_payment_product_checks
      [where s = example_catalog and request = "example_request 1" and E = example_checkout_env]
  by (simp add: get_product_by_id_def example_catalog_def example_request_def
        example_product_def sold_out_product_def inactive_product_def)

text \<open>
  C4. A checkout against a product whose stock quantity is 0 returns \<open>None\<close> and leaves
  the store as it was; in particular the order table has no new row.
\<close>

theorem create_paypal_payment_out_of_stock:
  "get_product_by_id s (Request_product_id request) = Some product \<Longrightarrow>
   Product_stock_quantity product = 0 \<Longrightarrow>
   create_paypal_payment E request s = (None, s)
   \<and> orders (snd (create_paypal_payment E request s)) = orders s"
  by (simp add: create_paypal_payment_def create_paypal_payment_try_def)

theorem create_paypal_payment_out_of_stock_witness:
  "get_product_by_id example_ledger (Request_product_id (example_request 2))
     = Some sold_out_product
   \<and> Product_stock_quantity sold_out_product = 0
   \<and> create_paypal_payment example_checkout_env (example_request 2) example_ledger
       = (None, example_ledger)
   \<and> orders (snd (create_paypal_payment example_checkout_env (example_request 2) example_ledger))
       = orders example_ledger"
proof -
  have h1: "get_product_by_id example_ledger (Request_product_id (example_request 2))
              = Some sold_out_product"
    by (simp add: get_product_by_id_def example_ledger_def example_request_def
          example_product_def sold_out_product_def)
  have h2: "Product_stock_quantity sold_out_product = 0"
    by (simp add: sold_out_product_def)
  show ?thesis
    using h1 h2 create_paypal_payment_out_of_stock [OF h1 h2, of example_checkout_env]
    by simp
qed

section \<open>Completion of a payment that is not in the store\<close>

text \<open>
  C9. \<open>complete_paypal_payment\<close> on a payment id that no stored payment carries returns
  \<open>False\<close> and leaves the whole store as it was.
\<close>

theorem complete_paypal_payment_unknown:
  "get_payment_by_id e s payment_id = None \<Longrightarrow>
   complete_paypal_payment e e' payment_id payer_id s = (False, s)"
  by (simp add: complete_paypal_payment_def complete_paypal_payment_try_def)

theorem complete_paypal_payment_unknown_witness:
  "get_payment_by_id example_env example_ledger ''PAY-UNKNOWN'' = None
   \<and> complete_paypal_payment example_env other_env ''PAY-UNKNOWN'' ''PAYER-1'' example_ledger
       = (False, example_ledger)"
proof -
  have h: "get_payment_by_id example_env example_ledger ''PAY-UNKNOWN'' = None"
    by (simp add: get_payment_by_id_def payments_with_id_def first_def example_ledger_def
          example_payment_def)
  show ?thesis
    using h complete_paypal_payment_unknown [OF h, of other_env "''PAYER-1''"]
    by simp
qed

section \<open>Completion and cancellation of a stored payment\<close>

lemma transaction_id_of_length: "length (transaction_id_of e) \<le> 20"
  by (simp add: transaction_id_of_def)

lemma complete_paypal_payment_success:
  assumes "get_payment_by_id e s payment_id = Some p"
    and "length payer_id \<le> 100"
    and "\<not> transaction_id_taken (Payment_id p) (Some (transaction_id_of e)) (payments s)"
  shows "complete_paypal_payment e e' payment_id payer_id s
       = (True, snd (update_order_status e' (Payment_order_id p) PAID
                       (s\<lparr>payments :=
                            replace_payment
                              (p\<lparr>Payment_status := P_COMPLETED,
                                 Payment_paypal_payer_id := Some payer_id,
                                 Payment_completed_at := Some (utcnow e 0),
                                 Payment_updated_at := utcnow e 1,
                                 Payment_transaction_id := Some (transaction_id_of e)\<rparr>)
                              (payments s)\<rparr>)))"
  using assms transaction_id_of_length [of e]
  by (simp add: complete_paypal_payment_def complete_paypal_payment_try_def Let_def
        max_length_opt_def split: prod.splits)



text \<open>What a successful completion leaves in the store.\<close>

lemma complete_paypal_payment_effect:
  assumes p: "sole_payment s payment_id p"
    and short: "length payer_id \<le> 100"
    and fresh: "\<not> transaction_id_taken (Payment_id p) (Some (transaction_id_of e)) (payments s)"
    and ord: "get_order_by_id s (Payment_order_id p) = Some ord"
  shows "fst (complete_paypal_payment e e' payment_id payer_id s) = True"
    and "sole_payment (snd (complete_paypal_payment e e' payment_id payer_id s)) payment_id
           (p\<lparr>Payment_status := P_COMPLETED,
              Payment_paypal_payer_id := Some payer_id,
              Payment_completed_at := Some (utcnow e 0),
              Payment_updated_at := utcnow e 1,
              Payment_transaction_id := Some (transaction_id_of e)\<rparr>)"
    and "get_order_by_id (snd (complete_paypal_payment e e' payment_id payer_id s))
           (Payment_order_id p)
         = Some (ord\<lparr>Order_status := PAID, Order_updated_at := utcnow e' 0\<rparr>)"
proof -
  let ?p = "p\<lparr>Payment_status := P_COMPLETED,
                    Payment_paypal_payer_id := Some payer_id,
                    Payment_completed_at := Some (utcnow e 0),
                    Payment_updated_at := utcnow e 1,
                    Payment_transaction_id := Some (transaction_id_of e)\<rparr>"
  let ?s1 = "s\<lparr>payments := replace_payment ?p (payments s)\<rparr>"
  let ?s2 = "snd (update_order_status e' (Payment_order_id p) PAID ?s1)"
  have g: "get_payment_by_id e s payment_id = Some p"
    using p by (rule get_payment_by_id_sole)
  have r: "complete_paypal_payment e e' payment_id payer_id s = (True, ?s2)"
    using g short fresh by (rule complete_paypal_payment_success)
  show "fst (complete_paypal_payment e e' payment_id payer_id s) = True"
    by (simp add: r)
  have "Payment_paypal_payment_id p = Some payment_id"
    using p by (rule sole_payment_stored)
  then have "sole_payment ?s1 payment_id ?p"
    using p by (intro sole_payment_replace) simp_all
  moreover have "sole_payment ?s2 payment_id ?p = sole_payment ?s1 payment_id ?p"
    by (rule sole_payment_cong) (rule update_order_status_payments)
  ultimately show "sole_payment (snd (complete_paypal_payment e e' payment_id payer_id s))
      payment_id ?p"
    by (simp add: r)
  have "get_order_by_id ?s1 (Payment_order_id p) = Some ord"
    using ord by (simp add: get_order_by_id_def)
  then have "get_order_by_id ?s2 (Payment_order_id p)
      = Some (ord\<lparr>Order_status := PAID, Order_updated_at := utcnow e' 0\<rparr>)"
    by (rule update_order_status_get)
  then show "get_order_by_id (snd (complete_paypal_payment e e' payment_id payer_id s))
           (Payment_order_id p)
         = Some (ord\<lparr>Order_status := PAID, Order_updated_at := utcnow e' 0\<rparr>)"
    by (simp add: r)
qed


text \<open>
  C5 (as amended). For a payment that is in the store as the only one with its payment
  id and whose order is in the store, a payer id of at most 100 characters, and when
  the transaction id drawn by the call is not held by another payment,
  \<open>complete_paypal_payment\<close> returns \<open>True\<close>; afterwards
  the query for the payment id, whatever the row order, yields the payment with status
  \<open>COMPLETED\<close>, the given payer id, the completion time and the drawn transaction id,
  which is not empty, everything else as it was; and its order has status \<open>PAID\<close>.
\<close>

theorem complete_paypal_payment_completes:
  assumes "payments_with_id s payment_id = [p]"
    and "get_order_by_id s (Payment_order_id p) = Some ord"
    and "length payer_id \<le> 100"
    and "\<not> transaction_id_taken (Payment_id p) (Some (transaction_id_of e)) (payments s)"
  shows "fst (complete_paypal_payment e e' payment_id payer_id s) = True
       \<and> get_payment_by_id e'' (snd (complete_paypal_payment e e' payment_id payer_id s))
            payment_id
           = Some (p\<lparr>Payment_status := P_COMPLETED,
                     Payment_paypal_payer_id := Some payer_id,
                     Payment_completed_at := Some (utcnow e 0),
                     Payment_updated_at := utcnow e 1,
                     Payment_transaction_id := Some (transaction_id_of e)\<rparr>)
       \<and> transaction_id_of e \<noteq> []
       \<and> get_order_by_id (snd (complete_paypal_payment e e' payment_id payer_id s))
            (Payment_order_id p)
           = Some (ord\<lparr>Order_status := PAID, Order_updated_at := utcnow e' 0\<rparr>)"
proof -
  have sole: "sole_payment s payment_id p"
    using assms(1) by (rule sole_payment_single)
  note eff = complete_paypal_payment_effect [OF sole assms(3) assms(4) assms(2), of e']
  have "get_payment_by_id e'' (snd (complete_paypal_payment e e' payment_id payer_id s))
            payment_id
           = Some (p\<lparr>Payment_status := P_COMPLETED,
                     Payment_paypal_payer_id := Some payer_id,
                     Payment_completed_at := Some (utcnow e 0),
                     Payment_updated_at := utcnow e 1,
                     Payment_transaction_id := Some (transaction_id_of e)\<rparr>)"
    using eff(2) by (rule get_payment_by_id_sole)
  with eff(1,3) show ?thesis
    by (simp add: transaction_id_of_def)
qed

theorem complete_paypal_payment_completes_witness:
  "payments_with_id example_ledger ''PAY-0F0E0D0C0B0A49088706'' = [example_payment]
   \<and> get_order_by_id example_ledger (Payment_order_id example_payment) = Some example_order
   \<and> length ''PAYER49088706'' \<le> 100
   \<and> \<not> transaction_id_taken (Payment_id example_payment)
          (Some (transaction_id_of example_env)) (payments example_ledger)
   \<and> fst (complete_paypal_payment example_env other_env ''PAY-0F0E0D0C0B0A49088706''
             ''PAYER49088706'' example_ledger) = True
   \<and> get_payment_by_id other_env
        (snd (complete_paypal_payment example_env other_env ''PAY-0F0E0D0C0B0A49088706''
                ''PAYER49088706'' example_ledger))
        ''PAY-0F0E0D0C0B0A49088706''
       = Some (example_payment
                 \<lparr>Payment_status := P_COMPLETED,
                  Payment_paypal_payer_id := Some ''PAYER49088706'',
                  Payment_completed_at := Some (utcnow example_env 0),
                  Payment_updated_at := utcnow example_env 1,
                  Payment_transaction_id := Some (transaction_id_of example_env)\<rparr>)
   \<and> transaction_id_of example_env \<noteq> []
   \<and> get_order_by_id
        (snd (complete_paypal_payment example_env other_env ''PAY-0F0E0D0C0B0A49088706''
                ''PAYER49088706'' example_ledger))
        (Payment_order_id example_payment)
       = Some (example_order\<lparr>Order_status := PAID, Order_updated_at := utcnow other_env 0\<rparr>)"
proof -
  have h1: "payments_with_id example_ledger ''PAY-0F0E0D0C0B0A49088706'' = [example_payment]"
    by (simp add: payments_with_id_def example_ledger_def example_payment_def)
  have h2: "get_order_by_id example_ledger (Payment_order_id example_payment)
              = Some example_order"
    by (simp add: get_order_by_id_def example_ledger_def example_payment_def example_order_def)
  have h3: "\<not> transaction_id_taken (Payment_id example_payment)
          (Some (transaction_id_of example_env)) (payments example_ledger)"
    by (simp add: transaction_id_taken_def example_ledger_def example_payment_def)
  have h4: "length ''PAYER49088706'' \<le> 100"
    by simp
  show ?thesis
    using h1 h2 h3
      complete_paypal_payment_completes [OF h1 h2 h4 h3, of other_env other_env]
    by simp
qed

text \<open>
  Three completions of a stored payment with a stored order that do not do what the
  claim says: the drawn transaction id is held by another payment; a second payment
  carries the same payment id and is not the one completed; the payer id is longer than
  its column.
\<close>

theorem complete_paypal_payment_counterexample:
  "payments_with_id busy_ledger ''PAY-99999999999999999999'' = [second_payment]
   \<and> get_order_by_id busy_ledger (Payment_order_id second_payment) = Some second_order
   \<and> complete_paypal_payment example_env other_env ''PAY-99999999999999999999''
        ''PAYER99999999'' busy_ledger = (False, busy_ledger)
   \<and> twin_payment \<in> set (payments twin_ledger)
   \<and> Payment_paypal_payment_id twin_payment = Some ''PAY-0F0E0D0C0B0A49088706''
   \<and> get_order_by_id twin_ledger (Payment_order_id twin_payment) = Some second_order
   \<and> \<not> transaction_id_taken (Payment_id twin_payment)
          (Some (transaction_id_of example_env)) (payments twin_ledger)
   \<and> fst (complete_paypal_payment example_env other_env ''PAY-0F0E0D0C0B0A49088706''
             ''PAYER49088706'' twin_ledger) = True
   \<and> twin_payment
        \<in> set (payments (snd (complete_paypal_payment example_env other_env
                               ''PAY-0F0E0D0C0B0A49088706'' ''PAYER49088706'' twin_ledger)))
   \<and> Payment_status twin_payment = P_PENDING
   \<and> map_option Order_status
        (get_order_by_id
           (snd (complete_paypal_payment example_env other_env ''PAY-0F0E0D0C0B0A49088706''
                   ''PAYER49088706'' twin_ledger))
           (Payment_order_id twin_payment))
       = Some PAYMENT_PENDING
   \<and> payments_with_id example_ledger ''PAY-0F0E0D0C0B0A49088706'' = [example_payment]
   \<and> get_order_by_id example_ledger (Payment_order_id example_payment) = Some example_order
   \<and> length long_text = 101
   \<and> complete_paypal_payment example_env other_env ''PAY-0F0E0D0C0B0A49088706'' long_text
        example_ledger = (False, example_ledger)"
  by code_simp




section \<open>Creation of orders\<close>

lemma has_shipping_fields_shipping_data_of: "has_shipping_fields (shipping_data_of request)"
  by (simp add: has_shipping_fields_def required_shipping_keys_def holds_text_def
        shipping_data_of_def)

lemma shipping_fields_fit_shipping_data_of:
  "PayPalPaymentRequest_valid request \<Longrightarrow> shipping_fields_fit (shipping_data_of request)"
  by (simp add: shipping_fields_fit_def shipping_data_of_def dict_get_def max_length_opt_def
        PayPalPaymentRequest_valid_def)

lemma order_number_of_length: "length (order_number_of e) \<le> 50"
  by (simp add: order_number_of_def strftime_Ymd_def upper_def)

lemma holds_textD: "holds_text d k \<Longrightarrow> \<exists>v. d k = Some (Some v)"
  by (auto simp: holds_text_def split: option.splits)

lemma new_order_complete:
  assumes "has_shipping_fields d" and "shipping_fields_fit d" and "length n \<le> 50"
  shows "\<exists>ord. new_order e n cid product d = Inr ord
           \<and> Order_fits ord
           \<and> Order_id ord = None \<and> Order_order_number ord = n
           \<and> Order_customer_id ord = cid \<and> Order_status ord = CREATED
           \<and> Order_total_amount ord = Product_price product
           \<and> None \<notin> set [Order_shipping_first_name ord, Order_shipping_last_name ord,
                            Order_shipping_address_line1 ord, Order_shipping_city ord,
                            Order_shipping_state ord, Order_shipping_postal_code ord,
                            Order_shipping_country ord]"
proof -
  from assms have "\<forall>k \<in> set required_shipping_keys. \<exists>v. d k = Some (Some v)"
    by (auto simp: has_shipping_fields_def list_all_iff dest: holds_textD)
  then have "\<exists>v. d ''shipping_first_name'' = Some (Some v)"
    "\<exists>v. d ''shipping_last_name'' = Some (Some v)"
    "\<exists>v. d ''shipping_address_line1'' = Some (Some v)"
    "\<exists>v. d ''shipping_city'' = Some (Some v)"
    "\<exists>v. d ''shipping_state'' = Some (Some v)"
    "\<exists>v. d ''shipping_postal_code'' = Some (Some v)"
    "\<exists>v. d ''shipping_country'' = Some (Some v)"
    by (simp_all add: required_shipping_keys_def)
  then obtain v1 v2 v3 v4 v5 v6 v7 where
    "d ''shipping_first_name'' = Some (Some v1)" "d ''shipping_last_name'' = Some (Some v2)"
    "d ''shipping_address_line1'' = Some (Some v3)" "d ''shipping_city'' = Some (Some v4)"
    "d ''shipping_state'' = Some (Some v5)" "d ''shipping_postal_code'' = Some (Some v6)"
    "d ''shipping_country'' = Some (Some v7)"
    by blast
  then show ?thesis
    using assms(2,3)
    by (simp add: new_order_def getitem_def Order_fits_def shipping_fields_fit_def dict_get_def)
qed


lemma create_order_saved_product:
  assumes "Customer_id customer = Some cid"
    and "Some cid \<in> set (map Customer_id (customers s))"
    and "has_shipping_fields d" and "shipping_fields_fit d"
    and "order_number_of e \<notin> set (map Order_order_number (orders s))"
    and "Product_id product = Some pid"
    and "Some pid \<in> set (map Product_id (products s))"
  shows "\<exists>ord item. create_order e customer product d s
             = (Inr Expired,
                s\<lparr>orders := orders s @ [ord], order_items := order_items s @ [item]\<rparr>)
           \<and> Order_id ord = Some (next_id (map Order_id (orders s)))
           \<and> Order_status ord = CREATED
           \<and> Order_order_number ord = order_number_of e
           \<and> Order_customer_id ord = cid
           \<and> Order_total_amount ord = Product_price product
           \<and> OrderItem_order_id item = next_id (map Order_id (orders s))
           \<and> OrderItem_product_id item = pid
           \<and> OrderItem_quantity item = 1
           \<and> OrderItem_unit_price item = Product_price product
           \<and> OrderItem_total_price item = Product_price product"
proof -
  obtain ord where "new_order e (order_number_of e) cid product d = Inr ord"
    and "Order_order_number ord = order_number_of e" and "Order_status ord = CREATED"
    and "Order_customer_id ord = cid" and "Order_total_amount ord = Product_price product"
    and "None \<notin> set [Order_shipping_first_name ord, Order_shipping_last_name ord,
                            Order_shipping_address_line1 ord, Order_shipping_city ord,
                            Order_shipping_state ord, Order_shipping_postal_code ord,
                            Order_shipping_country ord]"
    and "Order_fits ord"
    using new_order_complete [OF assms(3,4) order_number_of_length] by blast
  then show ?thesis
    using assms(1,2,5,6,7)
    by (intro exI [of _ "ord\<lparr>Order_id := Some (next_id (map Order_id (orders s)))\<rparr>"]
              exI [of _ "\<lparr>OrderItem_id = Some (next_id (map OrderItem_id (order_items s))),
                          OrderItem_order_id = next_id (map Order_id (orders s)),
                          OrderItem_product_id = pid, OrderItem_quantity = 1,
                          OrderItem_unit_price = Product_price product,
                          OrderItem_total_price = Product_price product\<rparr>"])
       (simp add: create_order_def add_order_def add_order_item_def Let_def)
qed

lemma get_or_create_customer_stored:
  assumes "stored_customers_have_ids s" and "CustomerCreate_valid email fn ln ph"
  shows "\<exists>c cid s1. get_or_create_customer e email fn ln ph s = (Inr c, s1)
           \<and> Customer_id c = Some cid
           \<and> Some cid \<in> set (map Customer_id (customers s1))
           \<and> products s1 = products s
           \<and> orders s1 = orders s \<and> order_items s1 = order_items s
           \<and> payments s1 = payments s"
  using get_or_create_customer_cases [OF assms(2), of e s]
proof (elim disjE exE conjE)
  fix c
  assume r: "get_or_create_customer e email fn ln ph s = (Inr c, s)"
    and f: "find (\<lambda>x. Customer_email x = email) (customers s) = Some c"
  from f have c: "c \<in> set (customers s)" by (auto dest: find_SomeD)
  with assms(1) obtain cid where cid: "Customer_id c = Some cid"
    by (force simp: stored_customers_have_ids_def)
  with c have "Some cid \<in> set (map Customer_id (customers s))"
    by force
  with r cid show ?thesis by auto
next
  fix c
  assume "get_or_create_customer e email fn ln ph s = (Inr c, s\<lparr>customers := customers s @ [c]\<rparr>)"
    and "Customer_id c = Some (next_id (map Customer_id (customers s)))"
  then show ?thesis by auto
qed




section \<open>The checkout of a product that is in stock\<close>

text \<open>
  C1 (not met by the code). The claim is that a checkout of an active product in stock
  succeeds and leaves one new order in \<open>PAYMENT_PENDING\<close> with one item. The code does
  not get that far. For a product that is in the store, active and with a stock quantity
  of at least 1, and a valid request for it, in a store whose customer rows carry their
  primary keys, and when the order number drawn by the call is not the number of a
  stored order: \<open>create_order\<close> commits the order and its item and returns the order
  expired; \<open>create_paypal_payment\<close> reads \<open>order.id\<close>, which raises
  \<open>DetachedInstanceError\<close>, and returns \<open>None\<close>. The store then holds exactly one more
  order, still \<open>CREATED\<close>, exactly one more item, which belongs to that order, has
  quantity 1 and the product's price as total price, and no new payment.
\<close>

theorem create_paypal_payment_detached_order:
  assumes product: "get_product_by_id s (Request_product_id request) = Some product"
    and active: "Product_is_active product"
    and stock: "1 \<le> Product_stock_quantity product"
    and valid: "PayPalPaymentRequest_valid request"
    and ids: "stored_customers_have_ids s"
    and fresh: "order_number_of (order_env E) \<notin> set (map Order_order_number (orders s))"
  shows "\<exists>ord item oid.
           fst (create_paypal_payment_try E request s)
             = Inl (DetachedInstanceError ''Instance is not bound to a Session'')
           \<and> fst (create_paypal_payment E request s) = None
           \<and> orders (snd (create_paypal_payment E request s)) = orders s @ [ord]
           \<and> Order_id ord = Some oid
           \<and> Order_status ord = CREATED
           \<and> order_items (snd (create_paypal_payment E request s)) = order_items s @ [item]
           \<and> OrderItem_order_id item = oid
           \<and> OrderItem_quantity item = 1
           \<and> OrderItem_total_price item = Product_price product
           \<and> payments (snd (create_paypal_payment E request s)) = payments s"
proof -
  from product have pid: "Product_id product = Some (Request_product_id request)"
    and pmem: "product \<in> set (products s)"
    by (auto simp: get_product_by_id_def dest: find_SomeD)
  from valid have cv: "CustomerCreate_valid (Request_customer_email request)
      (Request_customer_first_name request) (Request_customer_last_name request)
      (Request_phone request)"
    by (simp add: PayPalPaymentRequest_valid_def CustomerCreate_valid_def)
  obtain c cid s1 where
    goc: "get_or_create_customer (customer_env E) (Request_customer_email request)
            (Request_customer_first_name request) (Request_customer_last_name request)
            (Request_phone request) s = (Inr c, s1)"
    and cid: "Customer_id c = Some cid"
    and cmem: "Some cid \<in> set (map Customer_id (customers s1))"
    and p1: "products s1 = products s"
    and o1: "orders s1 = orders s" and i1: "order_items s1 = order_items s"
    and y1: "payments s1 = payments s"
    using get_or_create_customer_stored [OF ids cv] by blast
  from fresh o1
  have fresh1: "order_number_of (order_env E) \<notin> set (map Order_order_number (orders s1))"
    by simp
  from pmem pid p1
  have pmem1: "Some (Request_product_id request) \<in> set (map Product_id (products s1))"
    by force
  obtain ord item where
    co: "create_order (order_env E) c product (shipping_data_of request) s1
           = (Inr Expired,
              s1\<lparr>orders := orders s1 @ [ord], order_items := order_items s1 @ [item]\<rparr>)"
    and ord: "Order_id ord = Some (next_id (map Order_id (orders s1)))"
      "Order_status ord = CREATED"
    and item: "OrderItem_order_id item = next_id (map Order_id (orders s1))"
      "OrderItem_quantity item = 1" "OrderItem_total_price item = Product_price product"
    using create_order_saved_product
      [OF cid cmem has_shipping_fields_shipping_data_of
          shipping_fields_fit_shipping_data_of [OF valid] fresh1 pid pmem1] by blast
  have body: "create_paypal_payment_try E request s
      = (Inl (DetachedInstanceError ''Instance is not bound to a Session''),
         s1\<lparr>orders := orders s1 @ [ord], order_items := order_items s1 @ [item]\<rparr>)"
    using product active stock
    by (simp add: create_paypal_payment_try_def goc co read_fields_def Let_def)
  then have "create_paypal_payment E request s
      = (None, s1\<lparr>orders := orders s1 @ [ord], order_items := order_items s1 @ [item]\<rparr>)"
    by (simp add: create_paypal_payment_def)
  with body ord item o1 i1 y1 show ?thesis
    by simp
qed

theorem create_paypal_payment_detached_order_witness:
  "get_product_by_id example_catalog (Request_product_id (example_request 1))
     = Some example_product
   \<and> Product_is_active example_product
   \<and> 1 \<le> Product_stock_quantity example_product
   \<and> PayPalPaymentRequest_valid (example_request 1)
   \<and> stored_customers_have_ids example_catalog
   \<and> order_number_of (order_env example_checkout_env)
        \<notin> set (map Order_order_number (orders example_catalog))
   \<and> (\<exists>ord item oid.
           fst (create_paypal_payment_try example_checkout_env (example_request 1)
                  example_catalog)
             = Inl (DetachedInstanceError ''Instance is not bound to a Session'')
           \<and> fst (create_paypal_payment example_checkout_env (example_request 1)
                    example_catalog) = None
           \<and> orders (snd (create_paypal_payment example_checkout_env (example_request 1)
                             example_catalog))
               = orders example_catalog @ [ord]
           \<and> Order_id ord = Some oid
           \<and> Order_status ord = CREATED
           \<and> order_items (snd (create_paypal_payment example_checkout_env (example_request 1)
                                  example_catalog))
               = order_items example_catalog @ [item]
           \<and> OrderItem_order_id item = oid
           \<and> OrderItem_quantity item = 1
           \<and> OrderItem_total_price item = Product_price example_product
           \<and> payments (snd (create_paypal_payment example_checkout_env (example_request 1)
                               example_catalog))
               = payments example_catalog)"
proof -
  have h1: "get_product_by_id example_catalog (Request_product_id (example_request 1))
              = Some example_product"
    by (simp add: get_product_by_id_def example_catalog_def example_request_def
          example_product_def)
  have h2: "Product_is_active example_product"
    by (simp add: example_product_def)
  have h3: "1 \<le> Product_stock_quantity example_product"
    by (simp add: example_product_def)
  have h4: "PayPalPaymentRequest_valid (example_request 1)"
    by (simp add: PayPalPaymentRequest_valid_def max_length_opt_def example_request_def)
  have h5: "stored_customers_have_ids example_catalog"
    by (simp add: stored_customers_have_ids_def example_catalog_def)
  have h6: "order_number_of (order_env example_checkout_env)
        \<notin> set (map Order_order_number (orders example_catalog))"
    by (simp add: example_catalog_def)
  show ?thesis
    using h1 h2 h3 h4 h5 h6
      create_paypal_payment_detached_order [OF h1 h2 h3 h4 h5 h6]
    by simp
qed


end
